theory Spec2Isabelle
  imports Main "HOL-Library.Sublist"
begin

section \<open>Data model of \<open>sequelize.utils.ts\<close>\<close>

text \<open>
  The module exports four naming helpers (\<open>getModelToken\<close>, \<open>getConnectionToken\<close>,
  \<open>getConnectionPrefix\<close>, \<open>getConnectionName\<close>) and the retry operator \<open>handleRetry\<close>.
  Strings are \<open>string\<close>; a template literal and \<open>+\<close> on strings are list append.
\<close>

text \<open>
  A reference that the code tests against \<open>null\<close> and \<open>undefined\<close>
  (\<open>entity === null || entity === undefined\<close>, \<open>options && ...\<close>).
\<close>

datatype 'a nullable = Null | Undefined | Val 'a

text \<open>
  \<open>SequelizeModuleOptions\<close>: the only field the module reads is the optional \<open>name?: string\<close>
  (\<open>None\<close> is an absent name). Every other option of the interface lives in the record's
  extension part, which no function below inspects.
\<close>

record SequelizeModuleOptions =
  name :: "string option"

text \<open>
  The parameter type \<open>SequelizeModuleOptions<Dialect> | string\<close>; \<open>typeof connection === 'string'\<close>
  is the test for the constructor \<open>ConnStr\<close>.
\<close>

datatype 'x connection =
    ConnStr string
  | ConnOpts "'x SequelizeModuleOptions_scheme"

text \<open>A model class passed as \<open>entity: Function\<close>; the code reads only \<open>entity.name\<close>.\<close>

datatype Function = Function (fn_name: string)

text \<open>
  The return type \<open>string | Function | Type<Sequelize>\<close> of \<open>getConnectionToken\<close>: either the
  \<open>Sequelize\<close> class itself or a string token.
\<close>

datatype token = Sequelize | TokStr string

text \<open>\<open>new CircularDependencyException('@InjectModel()')\<close>: the exception with its context argument.\<close>

datatype error = CircularDependencyException string

text \<open>
  Modelled from the spec: the constant \<open>DEFAULT_CONNECTION_NAME\<close> is imported from
  \<open>../sequelize.constants\<close>, which is not among the sources. Its value is taken from the doc
  comments of the functions that default to it (\<open>[connection='default'] Connection name\<close>).
\<close>

definition DEFAULT_CONNECTION_NAME :: string where
  "DEFAULT_CONNECTION_NAME = ''default''"

text \<open>JavaScript truthiness of a \<open>string | undefined\<close>: \<open>undefined\<close> and \<open>''\<close> are falsy.\<close>

fun truthy :: "string option \<Rightarrow> bool" where
  "truthy None = False"
| "truthy (Some s) = (s \<noteq> [])"

text \<open>String conversion of a \<open>string | undefined\<close> in a template literal or under \<open>+ '_'\<close>.\<close>

fun to_string :: "string option \<Rightarrow> string" where
  "to_string None = ''undefined''"
| "to_string (Some s) = s"

text \<open>
  A default parameter (\<open>connection = DEFAULT_CONNECTION_NAME\<close>, \<open>retryAttempts = 9\<close>,
  \<open>retryDelay = 3000\<close>): an omitted (\<open>undefined\<close>) argument, \<open>None\<close>, is replaced by the default.
\<close>

fun default_param :: "'a \<Rightarrow> 'a option \<Rightarrow> 'a" where
  "default_param d None = d"
| "default_param d (Some v) = v"

section \<open>Token naming helpers\<close>

text \<open>
  \<^verbatim>\<open>
  if (connection === DEFAULT_CONNECTION_NAME) return '';
  if (typeof connection === 'string') return connection + '_';
  if (connection.name === DEFAULT_CONNECTION_NAME || !connection.name) return '';
  return connection.name + '_';
  \<close>
\<close>

definition getConnectionPrefix :: "'x connection option \<Rightarrow> string" where
  "getConnectionPrefix arg =
     (let connection = default_param (ConnStr DEFAULT_CONNECTION_NAME) arg in
      if connection = ConnStr DEFAULT_CONNECTION_NAME then ''''
      else case connection of
        ConnStr s \<Rightarrow> s @ ''_''
      | ConnOpts opts \<Rightarrow>
          if name opts = Some DEFAULT_CONNECTION_NAME \<or> \<not> truthy (name opts) then ''''
          else to_string (name opts) @ ''_'')"

text \<open>
  \<^verbatim>\<open>
  return DEFAULT_CONNECTION_NAME === connection
    ? Sequelize
    : 'string' === typeof connection
      ? `${connection}Connection`
      : DEFAULT_CONNECTION_NAME === connection.name || !connection.name
        ? Sequelize
        : `${connection.name}Connection`;
  \<close>
\<close>

definition getConnectionToken :: "'x connection option \<Rightarrow> token" where
  "getConnectionToken arg =
     (let connection = default_param (ConnStr DEFAULT_CONNECTION_NAME) arg in
      if ConnStr DEFAULT_CONNECTION_NAME = connection then Sequelize
      else case connection of
        ConnStr s \<Rightarrow> TokStr (s @ ''Connection'')
      | ConnOpts opts \<Rightarrow>
          if Some DEFAULT_CONNECTION_NAME = name opts \<or> \<not> truthy (name opts) then Sequelize
          else TokStr (to_string (name opts) @ ''Connection''))"

text \<open>
  \<^verbatim>\<open>
  if (entity === null || entity === undefined) {
    throw new CircularDependencyException('@InjectModel()');
  }
  const connectionPrefix = getConnectionPrefix(connection);
  return `${connectionPrefix}${entity.name}Repository`;
  \<close>
\<close>

definition getModelToken :: "Function nullable \<Rightarrow> 'x connection option \<Rightarrow> error + string" where
  "getModelToken entity arg =
     (let connection = default_param (ConnStr DEFAULT_CONNECTION_NAME) arg in
      case entity of
        Null \<Rightarrow> Inl (CircularDependencyException ''@InjectModel()'')
      | Undefined \<Rightarrow> Inl (CircularDependencyException ''@InjectModel()'')
      | Val f \<Rightarrow>
          (let connectionPrefix = getConnectionPrefix (Some connection)
           in Inr (connectionPrefix @ fn_name f @ ''Repository'')))"

text \<open>
  \<^verbatim>\<open>return options && options.name ? options.name : DEFAULT_CONNECTION_NAME;\<close>
  The parameter is declared \<open>SequelizeModuleOptions<Dialect>\<close>, and the code guards against an
  absent one.
\<close>

definition getConnectionName :: "'x SequelizeModuleOptions_scheme nullable \<Rightarrow> string" where
  "getConnectionName options =
     (case options of
        Null \<Rightarrow> DEFAULT_CONNECTION_NAME
      | Undefined \<Rightarrow> DEFAULT_CONNECTION_NAME
      | Val opts \<Rightarrow> if truthy (name opts) then to_string (name opts) else DEFAULT_CONNECTION_NAME)"

section \<open>Retry wrapper\<close>

text \<open>
  An \<open>Observable<T>\<close> as \<open>handleRetry\<close> uses it: every subscription runs on its own, delivers
  some values and then either completes or fails with an error. \<open>source k\<close> is what the
  subscription number \<open>k\<close> (counted from 0) does, so a connection attempt may fail on one
  subscription and succeed on a later one. A subscription that never ends is not modelled.
\<close>

datatype 'e ending = Complete | Error 'e

record ('a, 'e) run =
  emitted :: "'a list"
  ending :: "'e ending"

type_synonym ('a, 'e) observable = "nat \<Rightarrow> ('a, 'e) run"

text \<open>
  What the subscriber of the retried stream observes, with the effects of the operator:
  \<open>logged\<close> holds one entry per \<open>logger.error\<close> call (the number printed in
  \<open>Retrying (${errorCount + 1})...\<close> and the error whose stack is logged), \<open>delays\<close> the
  waits of \<open>delay(retryDelay)\<close> before each new subscription.
\<close>

record ('a, 'e) retried = "('a, 'e) run" +
  logged :: "(int \<times> 'e) list"
  delays :: "int list"

text \<open>
  The accumulator passed to \<open>scan\<close>, seeded with \<open>0\<close>:
  \<^verbatim>\<open>
  (errorCount, error: Error) => {
    logger.error(`Unable to connect to the database. Retrying (${errorCount + 1})...`, error.stack);
    if (errorCount + 1 >= retryAttempts) { throw error; }
    return errorCount + 1;
  }
  \<close>
  The first component is the log entry; \<open>Inl\<close> is the thrown error, \<open>Inr\<close> the new count.
  \<open>retryAttempts\<close> and \<open>retryDelay\<close> are JavaScript numbers; the model takes them as integers
  (a number of attempts, milliseconds).
\<close>

definition scan_accumulator :: "int \<Rightarrow> int \<Rightarrow> 'e \<Rightarrow> (int \<times> 'e) \<times> ('e + int)" where
  "scan_accumulator retryAttempts errorCount error =
     ((errorCount + 1, error),
      if errorCount + 1 \<ge> retryAttempts then Inl error else Inr (errorCount + 1))"

text \<open>
  \<open>source.pipe(retryWhen((e) => e.pipe(scan(..., 0), delay(retryDelay))))\<close>: the values of
  the current subscription are passed on; when it completes, the result completes; when it
  fails, the error goes through the \<open>scan\<close> accumulator. An error thrown there ends the
  result with that error (\<open>delay\<close> does not hold errors back); a returned count is emitted
  after the delay and makes \<open>retryWhen\<close> subscribe to the source again. The arguments
  \<open>k\<close>, \<open>errorCount\<close>, \<open>out\<close>, \<open>lg\<close>, \<open>ds\<close> are the number of the current
  subscription, the state of \<open>scan\<close>, and what has been delivered, logged and waited so far.
\<close>

function retryWhen ::
  "int \<Rightarrow> int \<Rightarrow> ('a, 'e) observable \<Rightarrow> nat \<Rightarrow> int \<Rightarrow> 'a list \<Rightarrow> (int \<times> 'e) list \<Rightarrow> int list
     \<Rightarrow> ('a, 'e) retried" where
  "retryWhen retryAttempts retryDelay source k errorCount out lg ds =
     (let r = source k; out' = out @ emitted r in
      case ending r of
        Complete \<Rightarrow> \<lparr>emitted = out', ending = Complete, logged = lg, delays = ds\<rparr>
      | Error error \<Rightarrow>
          (case scan_accumulator retryAttempts errorCount error of
             (entry, Inl thrown) \<Rightarrow>
               \<lparr>emitted = out', ending = Error thrown, logged = lg @ [entry], delays = ds\<rparr>
           | (entry, Inr errorCount') \<Rightarrow>
               retryWhen retryAttempts retryDelay source (Suc k) errorCount' out'
                 (lg @ [entry]) (ds @ [retryDelay])))"
  by pat_completeness auto
termination
proof (relation "measure (\<lambda>(retryAttempts, retryDelay, source, k, errorCount, out, lg, ds).
           nat (retryAttempts - errorCount))")
  show "wf (measure (\<lambda>(retryAttempts :: int, retryDelay :: int, source :: ('a, 'e) observable,
           k :: nat, errorCount :: int, out :: 'a list, lg :: (int \<times> 'e) list, ds :: int list).
           nat (retryAttempts - errorCount)))"
    by simp
qed (auto simp: scan_accumulator_def split: if_splits)

declare retryWhen.simps [simp del]

text \<open>
  \<^verbatim>\<open>
  export function handleRetry(retryAttempts = 9, retryDelay = 3000)
    : <T>(source: Observable<T>) => Observable<T>
  \<close>
\<close>

definition handleRetry ::
  "int option \<Rightarrow> int option \<Rightarrow> ('a, 'e) observable \<Rightarrow> ('a, 'e) retried" where
  "handleRetry retryAttempts_arg retryDelay_arg source =
     (let retryAttempts = default_param 9 retryAttempts_arg;
          retryDelay = default_param 3000 retryDelay_arg
      in retryWhen retryAttempts retryDelay source 0 0 [] [] [])"

text \<open>
  A source for concrete runs: its first subscriptions fail with the errors of \<open>errs\<close>, in
  order and without delivering a value; every later subscription behaves as \<open>r\<close>.
\<close>

definition fails_then :: "'e list \<Rightarrow> ('a, 'e) run \<Rightarrow> ('a, 'e) observable" where
  "fails_then errs r k =
     (if k < length errs then \<lparr>emitted = [], ending = Error (errs ! k)\<rparr> else r)"

section \<open>Properties of the token naming helpers\<close>

lemma getConnectionPrefix_default_param:
  "getConnectionPrefix (Some (default_param (ConnStr DEFAULT_CONNECTION_NAME) c)) =
   getConnectionPrefix c"
  by (cases c) (simp_all add: getConnectionPrefix_def)

text \<open>
  The tokens of an options object depend on its \<open>name\<close> only: two options objects with the
  same name get the same prefix and the same connection token, whatever else they hold.
\<close>

lemma connection_tokens_depend_on_name_only:
  "name opts = name opts' \<Longrightarrow>
   getConnectionPrefix (Some (ConnOpts opts)) = getConnectionPrefix (Some (ConnOpts opts')) \<and>
   getConnectionToken (Some (ConnOpts opts)) = getConnectionToken (Some (ConnOpts opts'))"
  by (simp add: getConnectionPrefix_def getConnectionToken_def)

text \<open>
  C4, as amended. For a connection that is not the default one (a string other than the
  default name, or an options object whose name is neither empty nor the default name),
  \<open>getConnectionToken\<close> returns the name of the connection followed by the fixed suffix
  \<open>Connection\<close>. It is built on the name itself, not on the prefix of
  \<open>getConnectionPrefix\<close>, which is the same name followed by \<open>_\<close>.
\<close>

theorem getConnectionToken_name_suffix:
  "(s \<noteq> DEFAULT_CONNECTION_NAME \<longrightarrow>
      getConnectionToken (Some (ConnStr s)) = TokStr (s @ ''Connection'') \<and>
      getConnectionPrefix (Some (ConnStr s)) = s @ ''_'') \<and>
   (name opts = Some n \<and> n \<noteq> DEFAULT_CONNECTION_NAME \<and> n \<noteq> '''' \<longrightarrow>
      getConnectionToken (Some (ConnOpts opts)) = TokStr (n @ ''Connection'') \<and>
      getConnectionPrefix (Some (ConnOpts opts)) = n @ ''_'')"
  by (auto simp: getConnectionToken_def getConnectionPrefix_def)

text \<open>The amended C4 at the string connection \<open>reports\<close> and at options named \<open>audit\<close>.\<close>

theorem getConnectionToken_name_suffix_witness:
  "getConnectionToken (Some (ConnStr ''reports'' :: unit connection)) = TokStr ''reportsConnection'' \<and>
   getConnectionPrefix (Some (ConnStr ''reports'' :: unit connection)) = ''reports_'' \<and>
   getConnectionToken (Some (ConnOpts \<lparr>name = Some ''audit''\<rparr>)) = TokStr ''auditConnection'' \<and>
   getConnectionPrefix (Some (ConnOpts \<lparr>name = Some ''audit''\<rparr>)) = ''audit_''"
  using getConnectionToken_name_suffix [of "''reports''" "\<lparr>name = Some ''audit''\<rparr>" "''audit''"]
  by (simp add: DEFAULT_CONNECTION_NAME_def)

text \<open>
  C4 as stated fails: for the string connection \<open>reports\<close> the prefix is \<open>reports_\<close> and the
  token is \<open>reportsConnection\<close>, which does not start with the prefix, so it is not the
  prefix followed by any suffix.
\<close>

theorem getConnectionToken_prefix_counterexample:
  "getConnectionPrefix (Some (ConnStr ''reports'' :: unit connection)) = ''reports_'' \<and>
   getConnectionToken (Some (ConnStr ''reports'' :: unit connection)) = TokStr ''reportsConnection'' \<and>
   \<not> prefix ''reports_'' ''reportsConnection''"
  by (simp add: getConnectionPrefix_def getConnectionToken_def DEFAULT_CONNECTION_NAME_def)

text \<open>
  C5. For every model reference that is present and every connection argument (also an
  omitted one), \<open>getModelToken\<close> returns the prefix that \<open>getConnectionPrefix\<close> gives for
  that connection, followed by the name of the model and the fixed suffix \<open>Repository\<close>.
\<close>

theorem getModelToken_prefix_name_suffix:
  "getModelToken (Val f) c = Inr (getConnectionPrefix c @ fn_name f @ ''Repository'')"
  by (simp add: getModelToken_def getConnectionPrefix_default_param)

text \<open>C5 at the model \<open>User\<close> on the connection \<open>reports\<close>.\<close>

theorem getModelToken_prefix_name_suffix_witness:
  "getModelToken (Val (Function ''User'')) (Some (ConnStr ''reports'' :: unit connection)) =
     Inr ''reports_UserRepository''"
  using getModelToken_prefix_name_suffix [of "Function ''User''" "Some (ConnStr ''reports'' :: unit connection)"]
  by (simp add: getConnectionPrefix_def DEFAULT_CONNECTION_NAME_def)




text \<open>
  C7. Whatever the connection argument, \<open>getModelToken\<close> with an absent model reference
  (\<open>null\<close> or \<open>undefined\<close>) raises \<open>CircularDependencyException\<close>.
\<close>

theorem getModelToken_absent_entity:
  "getModelToken Null c = Inl (CircularDependencyException ''@InjectModel()'') \<and>
   getModelToken Undefined c = Inl (CircularDependencyException ''@InjectModel()'')"
  by (simp add: getModelToken_def)

text \<open>C7 on the connection \<open>reports\<close>.\<close>

theorem getModelToken_absent_entity_witness:
  "getModelToken Null (Some (ConnStr ''reports'' :: unit connection)) =
     Inl (CircularDependencyException ''@InjectModel()'') \<and>
   getModelToken Undefined (Some (ConnStr ''reports'' :: unit connection)) =
     Inl (CircularDependencyException ''@InjectModel()'')"
  by (rule getModelToken_absent_entity)

text \<open>
  C9. For the default connection (the argument omitted, the default connection name, an
  options object whose name is the default name, or an options object without a name)
  \<open>getConnectionToken\<close> returns the \<open>Sequelize\<close> class itself, not a string token.
\<close>

theorem getConnectionToken_default:
  "getConnectionToken (None :: 'x connection option) = Sequelize \<and>
   getConnectionToken (Some (ConnStr DEFAULT_CONNECTION_NAME :: 'x connection)) = Sequelize \<and>
   (name opts = Some DEFAULT_CONNECTION_NAME \<or> name opts = None \<longrightarrow>
      getConnectionToken (Some (ConnOpts (opts :: 'x SequelizeModuleOptions_scheme))) = Sequelize)"
  by (auto simp: getConnectionToken_def)

text \<open>C9 at an options object without a name.\<close>

theorem getConnectionToken_default_witness:
  "getConnectionToken (None :: unit connection option) = Sequelize \<and>
   getConnectionToken (Some (ConnStr DEFAULT_CONNECTION_NAME :: unit connection)) = Sequelize \<and>
   getConnectionToken (Some (ConnOpts \<lparr>name = None\<rparr>)) = Sequelize"
  using getConnectionToken_default [of "\<lparr>name = None\<rparr>"]
  by simp

text \<open>
  C10, as amended. \<open>getConnectionName\<close> returns a name on every argument: the default
  connection name for an absent options argument (\<open>null\<close> or \<open>undefined\<close>) and for an
  options object whose name is absent or the empty string, and \<open>options.name\<close> otherwise.
\<close>

theorem getConnectionName_cases:
  "getConnectionName (Null :: 'x SequelizeModuleOptions_scheme nullable) = DEFAULT_CONNECTION_NAME \<and>
   getConnectionName (Undefined :: 'x SequelizeModuleOptions_scheme nullable) = DEFAULT_CONNECTION_NAME \<and>
   (name opts = None \<or> name opts = Some '''' \<longrightarrow>
      getConnectionName (Val (opts :: 'x SequelizeModuleOptions_scheme)) = DEFAULT_CONNECTION_NAME) \<and>
   (name opts = Some n \<and> n \<noteq> '''' \<longrightarrow> getConnectionName (Val opts) = n)"
  by (auto simp: getConnectionName_def)

text \<open>The amended C10 at options named \<open>audit\<close>.\<close>

theorem getConnectionName_cases_witness:
  "getConnectionName (Null :: unit SequelizeModuleOptions_scheme nullable) = DEFAULT_CONNECTION_NAME \<and>
   getConnectionName (Undefined :: unit SequelizeModuleOptions_scheme nullable) = DEFAULT_CONNECTION_NAME \<and>
   getConnectionName (Val \<lparr>name = Some ''audit''\<rparr>) = ''audit''"
  using getConnectionName_cases [of "\<lparr>name = Some ''audit''\<rparr>" "''audit''"]
  by simp

text \<open>
  C10 as stated fails: for an options object whose name is present and is the empty string
  the result is the default connection name, not \<open>options.name\<close>.
\<close>

theorem getConnectionName_empty_name_counterexample:
  "name \<lparr>name = Some ''''\<rparr> = Some '''' \<and>
   getConnectionName (Val \<lparr>name = Some ''''\<rparr>) = ''default'' \<and>
   getConnectionName (Val \<lparr>name = Some ''''\<rparr>) \<noteq> ''''"
  by (simp add: getConnectionName_def DEFAULT_CONNECTION_NAME_def)

section \<open>Properties of the retry wrapper\<close>

text \<open>One step of the operator, by what the current subscription does and the budget left.\<close>

lemma retryWhen_Complete:
  "ending (source k) = Complete \<Longrightarrow>
   retryWhen R d source k ec out lg ds =
     \<lparr>emitted = out @ emitted (source k), ending = Complete, logged = lg, delays = ds\<rparr>"
  by (subst retryWhen.simps) (simp add: Let_def)

lemma retryWhen_throw:
  "ending (source k) = Error e \<Longrightarrow> R \<le> ec + 1 \<Longrightarrow>
   retryWhen R d source k ec out lg ds =
     \<lparr>emitted = out @ emitted (source k), ending = Error e,
      logged = lg @ [(ec + 1, e)], delays = ds\<rparr>"
  by (subst retryWhen.simps) (simp add: Let_def scan_accumulator_def)

lemma retryWhen_retry:
  "ending (source k) = Error e \<Longrightarrow> ec + 1 < R \<Longrightarrow>
   retryWhen R d source k ec out lg ds =
     retryWhen R d source (Suc k) (ec + 1) (out @ emitted (source k))
       (lg @ [(ec + 1, e)]) (ds @ [d])"
  by (subst retryWhen.simps) (simp add: Let_def scan_accumulator_def)

text \<open>\<open>n\<close> failures in a row, each within the budget, are all retried.\<close>

lemma retryWhen_failures:
  "(\<forall>i<n. ending (source (k + i)) = Error (errs (k + i))) \<Longrightarrow>
   (\<forall>i<n. ec + int i + 1 < R) \<Longrightarrow>
   retryWhen R d source k ec out lg ds =
     retryWhen R d source (k + n) (ec + int n)
       (out @ concat (map (\<lambda>i. emitted (source (k + i))) [0..<n]))
       (lg @ map (\<lambda>i. (ec + int i + 1, errs (k + i))) [0..<n])
       (ds @ replicate n d)"
proof (induction n arbitrary: k ec out lg ds)
  case 0
  then show ?case by simp
next
  case (Suc n)
  have first: "ending (source k) = Error (errs k)"
    using Suc.prems(1) by (metis add.right_neutral zero_less_Suc)
  have budget: "ec + 1 < R"
    using Suc.prems(2) by (metis add.right_neutral of_nat_0 zero_less_Suc)
  have rest: "\<forall>i<n. ending (source (Suc k + i)) = Error (errs (Suc k + i))"
    using Suc.prems(1) by (metis Suc_less_eq add_Suc_shift)
  have rest_budget: "\<forall>i<n. (ec + 1) + int i + 1 < R"
  proof (intro allI impI)
    fix i assume "i < n"
    then have "ec + int (Suc i) + 1 < R" using Suc.prems(2) by (meson Suc_less_eq)
    then show "(ec + 1) + int i + 1 < R" by simp
  qed
  have shift_out: "map (\<lambda>i. emitted (source (k + i))) [0..<Suc n] =
        emitted (source k) # map (\<lambda>i. emitted (source (Suc k + i))) [0..<n]"
    by (simp add: upt_conv_Cons map_Suc_upt[symmetric] del: upt_Suc)
  have shift_log: "map (\<lambda>i. (ec + int i + 1, errs (k + i))) [0..<Suc n] =
        (ec + 1, errs k) # map (\<lambda>i. ((ec + 1) + int i + 1, errs (Suc k + i))) [0..<n]"
    by (simp add: upt_conv_Cons map_Suc_upt[symmetric] add.commute add.left_commute del: upt_Suc)
  have step: "retryWhen R d source k ec out lg ds =
      retryWhen R d source (Suc k) (ec + 1) (out @ emitted (source k))
        (lg @ [(ec + 1, errs k)]) (ds @ [d])"
    using first budget by (rule retryWhen_retry)
  have ih: "retryWhen R d source (Suc k) (ec + 1) out' lg' ds' =
      retryWhen R d source (Suc k + n) (ec + 1 + int n)
        (out' @ concat (map (\<lambda>i. emitted (source (Suc k + i))) [0..<n]))
        (lg' @ map (\<lambda>i. (ec + 1 + int i + 1, errs (Suc k + i))) [0..<n])
        (ds' @ replicate n d)" for out' lg' ds'
    using rest rest_budget by (rule Suc.IH)
  show ?case
    unfolding step ih shift_out shift_log
    by (simp add: replicate_app_Cons_same add.commute add.left_commute)
qed

text \<open>
  When the result ends with an error, the subscriptions made are exactly the logged ones,
  the error is the one of the last of them, and the count has reached \<open>retryAttempts\<close>.
\<close>

lemma retryWhen_Error_last:
  "ending (retryWhen R d source k ec out lg ds) = Error e \<Longrightarrow>
   k = length lg \<Longrightarrow> ec = int (length lg) \<Longrightarrow>
   logged (retryWhen R d source k ec out lg ds) \<noteq> [] \<and>
   last (logged (retryWhen R d source k ec out lg ds)) =
     (int (length (logged (retryWhen R d source k ec out lg ds))), e) \<and>
   ending (source (length (logged (retryWhen R d source k ec out lg ds)) - 1)) = Error e \<and>
   R \<le> int (length (logged (retryWhen R d source k ec out lg ds)))"
proof (induction R d source k ec out lg ds rule: retryWhen.induct)
  case (1 R d source k ec out lg ds)
  show ?case
  proof (cases "ending (source k)")
    case Complete
    then show ?thesis using "1.prems"(1) by (simp add: retryWhen_Complete)
  next
    case (Error x)
    show ?thesis
    proof (cases "R \<le> ec + 1")
      case True
      then show ?thesis
        using "1.prems" Error by (simp add: retryWhen_throw)
    next
      case False
      then have budget: "ec + 1 < R" by simp
      have sc: "((ec + 1, x), Inr (ec + 1)) = scan_accumulator R ec x"
        using budget by (simp add: scan_accumulator_def)
      have step: "retryWhen R d source k ec out lg ds =
          retryWhen R d source (Suc k) (ec + 1) (out @ emitted (source k))
            (lg @ [(ec + 1, x)]) (ds @ [d])"
        using Error budget by (rule retryWhen_retry)
      have "ending (retryWhen R d source (Suc k) (ec + 1) (out @ emitted (source k))
            (lg @ [(ec + 1, x)]) (ds @ [d])) = Error e"
        using "1.prems"(1) step by simp
      moreover have "Suc k = length (lg @ [(ec + 1, x)])" using "1.prems"(2) by simp
      moreover have "ec + 1 = int (length (lg @ [(ec + 1, x)]))" using "1.prems"(3) by simp
      ultimately show ?thesis
        unfolding step
        using "1.IH"[OF refl refl Error sc refl] by blast
    qed
  qed
qed

text \<open>
  C1, as amended. For every source whose first \<open>N\<close> subscriptions fail and whose next one
  succeeds, the stream of \<open>handleRetry\<close> with \<open>retryAttempts > N\<close> completes and yields the
  values of the successful subscription (after whatever the failed ones delivered before
  failing); each failure is logged with its number and followed by one delay.
\<close>

theorem handleRetry_succeeds_within_budget:
  assumes "\<forall>k<N. ending (source k) = Error (errs k)"
    and "ending (source N) = Complete"
    and "int N < default_param 9 retryAttempts"
  shows "handleRetry retryAttempts retryDelay source =
           \<lparr>emitted = concat (map (\<lambda>k. emitted (source k)) [0..<N]) @ emitted (source N),
            ending = Complete,
            logged = map (\<lambda>k. (int k + 1, errs k)) [0..<N],
            delays = replicate N (default_param 3000 retryDelay)\<rparr>"
proof -
  have fails: "\<forall>i<N. ending (source (0 + i)) = Error (errs (0 + i))"
    using assms(1) by simp
  have budget: "\<forall>i<N. 0 + int i + 1 < default_param 9 retryAttempts"
    using assms(3) by auto
  show ?thesis
    unfolding handleRetry_def Let_def
      retryWhen_failures[of N source 0 errs 0, OF fails budget]
    using assms(2) by (simp add: retryWhen_Complete)
qed

text \<open>
  The amended C1 at a source that fails twice and then connects, with three attempts
  allowed.
\<close>

theorem handleRetry_succeeds_within_budget_witness:
  "handleRetry (Some 3) (Some 3000)
     (fails_then [''ECONNREFUSED'', ''ETIMEDOUT''] \<lparr>emitted = [''connected''], ending = Complete\<rparr>) =
   \<lparr>emitted = [''connected''], ending = Complete,
    logged = [(1, ''ECONNREFUSED''), (2, ''ETIMEDOUT'')], delays = [3000, 3000]\<rparr>"
proof -
  let ?errs = "[''ECONNREFUSED'', ''ETIMEDOUT'']"
  let ?source = "fails_then ?errs \<lparr>emitted = [''connected''], ending = Complete\<rparr>"
  have fails: "\<forall>k<2. ending (?source k) = Error (?errs ! k)"
    by (simp add: fails_then_def)
  have succeeds: "ending (?source 2) = Complete"
    by (simp add: fails_then_def)
  have budget: "int 2 < default_param 9 (Some 3)"
    by simp
  have upt2: "[0..<2] = [0, Suc 0]"
    by (simp add: numeral_2_eq_2)
  have delivered: "concat (map (\<lambda>k. emitted (?source k)) [0..<2]) @ emitted (?source 2) =
      [''connected'']"
    by (simp add: upt2 fails_then_def)
  have entries: "map (\<lambda>k. (int k + 1, ?errs ! k)) [0..<2] =
      [(1, ''ECONNREFUSED''), (2, ''ETIMEDOUT'')]"
    by (simp add: upt2)
  have waits: "replicate 2 (default_param 3000 (Some 3000)) = [3000, 3000 :: int]"
    by (simp add: numeral_2_eq_2)
  show ?thesis
    using handleRetry_succeeds_within_budget [OF fails succeeds budget, of "Some 3000"]
    unfolding delivered entries waits .
qed

text \<open>
  C1 as stated fails at \<open>retryAttempts = N\<close>: a source that fails twice and then connects,
  with \<open>retryAttempts = 2\<close>, ends with the second error and never yields the value. The
  accumulator throws as soon as \<open>errorCount + 1 >= retryAttempts\<close>, so \<open>retryAttempts\<close>
  bounds the subscriptions, not the failures survived.
\<close>

theorem handleRetry_equal_budget_counterexample:
  "handleRetry (Some 2) (Some 3000)
     (fails_then [''ECONNREFUSED'', ''ETIMEDOUT''] \<lparr>emitted = [''connected''], ending = Complete\<rparr>) =
   \<lparr>emitted = [], ending = Error ''ETIMEDOUT'',
    logged = [(1, ''ECONNREFUSED''), (2, ''ETIMEDOUT'')], delays = [3000]\<rparr>"
  by (simp add: handleRetry_def retryWhen.simps Let_def scan_accumulator_def fails_then_def)

text \<open>
  C2, as amended. For every source whose first \<open>N\<close> subscriptions fail (\<open>N > 0\<close>), the stream
  of \<open>handleRetry\<close> with \<open>retryAttempts < N\<close> fails with the error of the last attempt it
  made, unchanged: attempt number \<open>max 1 retryAttempts\<close>. It makes exactly that many
  attempts and logs each of them.
\<close>

theorem handleRetry_exhausted:
  assumes "\<forall>k<N. ending (source k) = Error (errs k)"
    and "default_param 9 retryAttempts < int N"
    and "0 < N"
  shows "ending (handleRetry retryAttempts retryDelay source) =
           Error (errs (nat (max 1 (default_param 9 retryAttempts)) - 1)) \<and>
         logged (handleRetry retryAttempts retryDelay source) =
           map (\<lambda>k. (int k + 1, errs k)) [0..<nat (max 1 (default_param 9 retryAttempts))]"
proof -
  define R where "R = default_param 9 retryAttempts"
  define m where "m = nat (max 1 R) - 1"
  have m_lt: "m < N" using assms(2,3) by (auto simp: m_def R_def)
  have Suc_m: "Suc m = nat (max 1 R)" by (simp add: m_def)
  have fails: "\<forall>i<m. ending (source (0 + i)) = Error (errs (0 + i))"
    using assms(1) m_lt by simp
  have budget: "\<forall>i<m. 0 + int i + 1 < R"
    by (auto simp: m_def)
  have last_fails: "ending (source (0 + m)) = Error (errs m)"
    using assms(1) m_lt by simp
  have spent: "R \<le> (0 + int m) + 1"
    by (auto simp: m_def)
  have "handleRetry retryAttempts retryDelay source =
      \<lparr>emitted = ([] @ concat (map (\<lambda>i. emitted (source (0 + i))) [0..<m])) @ emitted (source (0 + m)),
       ending = Error (errs m),
       logged = ([] @ map (\<lambda>i. (0 + int i + 1, errs (0 + i))) [0..<m]) @ [((0 + int m) + 1, errs m)],
       delays = [] @ replicate m (default_param 3000 retryDelay)\<rparr>"
    unfolding handleRetry_def Let_def R_def[symmetric]
      retryWhen_failures[of m source 0 errs 0, OF fails budget]
    using last_fails spent by (rule retryWhen_throw)
  then show ?thesis
    unfolding R_def[symmetric] Suc_m[symmetric] by simp
qed

text \<open>
  The amended C2 at a source that fails three times with the same error, with two attempts
  allowed.
\<close>

theorem handleRetry_exhausted_witness:
  "ending (handleRetry (Some 2) (Some 3000)
     (fails_then [''ECONNREFUSED'', ''ECONNREFUSED'', ''ECONNREFUSED'']
        \<lparr>emitted = [''connected''], ending = Complete\<rparr>)) = Error ''ECONNREFUSED'' \<and>
   logged (handleRetry (Some 2) (Some 3000)
     (fails_then [''ECONNREFUSED'', ''ECONNREFUSED'', ''ECONNREFUSED'']
        \<lparr>emitted = [''connected''], ending = Complete\<rparr>)) =
     [(1, ''ECONNREFUSED''), (2, ''ECONNREFUSED'')]"
proof -
  let ?errs = "[''ECONNREFUSED'', ''ECONNREFUSED'', ''ECONNREFUSED'']"
  let ?source = "fails_then ?errs \<lparr>emitted = [''connected''], ending = Complete\<rparr>"
  have fails: "\<forall>k<3. ending (?source k) = Error (?errs ! k)"
    by (simp add: fails_then_def)
  have budget: "default_param 9 (Some 2) < int 3"
    by simp
  have positive: "0 < (3::nat)"
    by simp
  have upt2: "[0..<2] = [0, Suc 0]"
    by (simp add: numeral_2_eq_2)
  show ?thesis
    using handleRetry_exhausted [OF fails budget positive, of "Some 3000"]
    by (simp add: upt2 numeral_2_eq_2)
qed

text \<open>
  C2 as stated fails when the failures differ: a source that fails with \<open>first\<close>,
  \<open>second\<close> and \<open>third\<close>, with \<open>retryAttempts = 2\<close>, propagates \<open>second\<close>, the error of
  the last attempt made, and not the first failure.
\<close>

theorem handleRetry_first_failure_counterexample:
  "ending (handleRetry (Some 2) (Some 3000)
     (fails_then [''first'', ''second'', ''third'']
        \<lparr>emitted = [''connected''], ending = Complete\<rparr>)) = Error ''second'' \<and>
   ending (handleRetry (Some 2) (Some 3000)
     (fails_then [''first'', ''second'', ''third'']
        \<lparr>emitted = [''connected''], ending = Complete\<rparr>)) \<noteq> Error ''first''"
  by (simp add: handleRetry_def retryWhen.simps Let_def scan_accumulator_def fails_then_def)

text \<open>
  C3. When the retry budget of \<open>handleRetry\<close> is exhausted, that is, when the source has
  failed on each of the \<open>max 1 retryAttempts\<close> subscriptions the operator makes, the stream
  ends with an error, and the error propagated is the one raised by the last of these
  subscriptions: the last error the source raised. No further subscription is made; the
  log holds exactly these failures, that error last.
\<close>

theorem handleRetry_exhausted_raises_last:
  assumes "\<forall>k<n. ending (source k) = Error (errs k)"
    and "n = nat (max 1 (default_param 9 retryAttempts))"
  shows "handleRetry retryAttempts retryDelay source =
           \<lparr>emitted = concat (map (\<lambda>k. emitted (source k)) [0..<n]),
            ending = Error (errs (n - 1)),
            logged = map (\<lambda>k. (int k + 1, errs k)) [0..<n],
            delays = replicate (n - 1) (default_param 3000 retryDelay)\<rparr>"
proof -
  define R where "R = default_param 9 retryAttempts"
  define m where "m = n - 1"
  have n_eq: "n = nat (max 1 R)" using assms(2) by (simp add: R_def)
  have Suc_m: "Suc m = n" using n_eq by (simp add: m_def)
  have m_lt: "m < n" using Suc_m by simp
  have fails: "\<forall>i<m. ending (source (0 + i)) = Error (errs (0 + i))"
    using assms(1) m_lt by simp
  have budget: "\<forall>i<m. 0 + int i + 1 < R"
    using n_eq by (auto simp: m_def)
  have last_fails: "ending (source (0 + m)) = Error (errs m)"
    using assms(1) m_lt by simp
  have spent: "R \<le> (0 + int m) + 1"
    using n_eq by (auto simp: m_def)
  have "handleRetry retryAttempts retryDelay source =
      \<lparr>emitted = ([] @ concat (map (\<lambda>i. emitted (source (0 + i))) [0..<m])) @ emitted (source (0 + m)),
       ending = Error (errs m),
       logged = ([] @ map (\<lambda>i. (0 + int i + 1, errs (0 + i))) [0..<m]) @ [((0 + int m) + 1, errs m)],
       delays = [] @ replicate m (default_param 3000 retryDelay)\<rparr>"
    unfolding handleRetry_def Let_def R_def[symmetric]
      retryWhen_failures[of m source 0 errs 0, OF fails budget]
    using last_fails spent by (rule retryWhen_throw)
  then show ?thesis
    unfolding Suc_m[symmetric] by (simp add: m_def)
qed

text \<open>
  C3 at a source that fails with three different errors and would then connect, with
  three attempts allowed: the budget is spent on the third failure, and its error is the
  one propagated.
\<close>

theorem handleRetry_exhausted_raises_last_witness:
  "handleRetry (Some 3) None
     (fails_then [''EAI_AGAIN'', ''ECONNREFUSED'', ''ETIMEDOUT'']
        \<lparr>emitted = [''connected''], ending = Complete\<rparr>) =
     \<lparr>emitted = [], ending = Error ''ETIMEDOUT'',
      logged = [(1, ''EAI_AGAIN''), (2, ''ECONNREFUSED''), (3, ''ETIMEDOUT'')],
      delays = [3000, 3000]\<rparr> \<and>
   ending (handleRetry (Some 3) None
     (fails_then [''EAI_AGAIN'', ''ECONNREFUSED'', ''ETIMEDOUT'']
        \<lparr>emitted = [''connected''], ending = Complete\<rparr>)) = Error ''ETIMEDOUT''"
proof -
  let ?errs = "[''EAI_AGAIN'', ''ECONNREFUSED'', ''ETIMEDOUT'']"
  let ?source = "fails_then ?errs \<lparr>emitted = [''connected''], ending = Complete\<rparr>"
  have fails: "\<forall>k<3. ending (?source k) = Error (?errs ! k)"
    by (simp add: fails_then_def)
  have spent: "3 = nat (max 1 (default_param 9 (Some 3)))"
    by simp
  have upt3: "[0..<3] = [0, Suc 0, Suc (Suc 0)]"
    by (simp add: numeral_3_eq_3)
  have delivered: "concat (map (\<lambda>k. emitted (?source k)) [0..<3]) = []"
    by (simp add: upt3 fails_then_def)
  have raised: "?errs ! (3 - 1) = ''ETIMEDOUT''"
    by (simp add: numeral_2_eq_2)
  have entries: "map (\<lambda>k. (int k + 1, ?errs ! k)) [0..<3] =
      [(1, ''EAI_AGAIN''), (2, ''ECONNREFUSED''), (3, ''ETIMEDOUT'')]"
    by (simp add: upt3)
  have waits: "replicate (3 - 1) (default_param 3000 None) = [3000, 3000 :: int]"
    by (simp add: numeral_2_eq_2)
  have run: "handleRetry (Some 3) None ?source =
      \<lparr>emitted = [], ending = Error ''ETIMEDOUT'',
       logged = [(1, ''EAI_AGAIN''), (2, ''ECONNREFUSED''), (3, ''ETIMEDOUT'')],
       delays = [3000, 3000]\<rparr>"
    using handleRetry_exhausted_raises_last [OF fails spent, of None]
    unfolding delivered raised entries waits .
  show ?thesis
    unfolding run by simp
qed

text \<open>
  Conversely, the stream ends with an error only when the budget is exhausted, and the error
  is then the one of the last subscription made.
\<close>

lemma handleRetry_Error_only_when_exhausted:
  assumes "handleRetry retryAttempts retryDelay source = r"
    and "ending r = Error e"
  shows "logged r \<noteq> [] \<and>
         last (logged r) = (int (length (logged r)), e) \<and>
         ending (source (length (logged r) - 1)) = Error e \<and>
         default_param 9 retryAttempts \<le> int (length (logged r))"
  using assms retryWhen_Error_last[of "default_param 9 retryAttempts"
      "default_param 3000 retryDelay" source 0 0 "[]" "[]" "[]" e]
  by (simp add: handleRetry_def Let_def)

end
